theory Spec2Isabelle
  imports Main
begin

section \<open>Python values, errors and built-ins used by the engine\<close>

text \<open>
  Strings are byte strings: a Python \<open>str\<close> is represented by its UTF-8 encoding, which is
  what \<open>urllib.parse.quote_plus\<close> works on. An exception raised by the source is a value
  \<open>Inl e\<close> of the result type; a returned string is \<open>Inr s\<close>.
  \<open>BackendError\<close> stands for anything raised inside the call of the text-generation
  service or by \<open>json.loads\<close>.
\<close>

datatype py_error = KeyError string | IndexError | BackendError

definition NL :: char where
  "NL = CHR 0x0A"

definition SQ :: char where
  "SQ = CHR 0x27"

definition DQ :: char where
  "DQ = CHR 0x22"

definition BSL :: char where
  "BSL = CHR 0x5C"

text \<open>\<open>d[key]\<close> on the parsed JSON object: a missing key raises \<open>KeyError\<close>.\<close>

definition getitem :: "string \<Rightarrow> 'a option \<Rightarrow> py_error + 'a" where
  "getitem key field = (case field of None \<Rightarrow> Inl (KeyError key) | Some v \<Rightarrow> Inr v)"

text \<open>\<open>xs[i]\<close> for a non-negative index and \<open>xs[-1]\<close>: out of range raises \<open>IndexError\<close>.\<close>

definition list_getitem :: "'a list \<Rightarrow> nat \<Rightarrow> py_error + 'a" where
  "list_getitem xs i = (if i < length xs then Inr (xs ! i) else Inl IndexError)"

definition list_last :: "'a list \<Rightarrow> py_error + 'a" where
  "list_last xs = (if xs = [] then Inl IndexError else Inr (last xs))"

text \<open>\<open>sep.join(xs)\<close>.\<close>

fun str_join :: "string \<Rightarrow> string list \<Rightarrow> string" where
  "str_join sep [] = []"
| "str_join sep [x] = x"
| "str_join sep (x # y # ys) = x @ sep @ str_join sep (y # ys)"

definition hex_upper :: "nat \<Rightarrow> char" where
  "hex_upper n = ''0123456789ABCDEF'' ! (n mod 16)"

definition hex_lower :: "nat \<Rightarrow> char" where
  "hex_lower n = ''0123456789abcdef'' ! (n mod 16)"

subsection \<open>Code points\<close>

text \<open>
  \<open>utf8_units\<close> splits a byte string into the encodings of its code points: a byte and
  the continuation bytes after it, at most as many as the byte announces. \<open>codepoint\<close>
  is the number that such a unit encodes.
\<close>

definition utf8_need :: "char \<Rightarrow> nat" where
  "utf8_need c =
     (let n = (of_char c :: nat)
      in if n < 0xC0 then 0 else if n < 0xE0 then 1 else if n < 0xF0 then 2 else 3)"

definition is_continuation :: "char \<Rightarrow> bool" where
  "is_continuation c = (0x80 \<le> (of_char c :: nat) \<and> (of_char c :: nat) < 0xC0)"

definition continuation_count :: "char \<Rightarrow> string \<Rightarrow> nat" where
  "continuation_count c bs = length (takeWhile is_continuation (take (utf8_need c) bs))"

fun utf8_units :: "string \<Rightarrow> string list" where
  "utf8_units [] = []"
| "utf8_units (c # bs) =
     (c # take (continuation_count c bs) bs) # utf8_units (drop (continuation_count c bs) bs)"

definition lead_bits :: "char \<Rightarrow> nat" where
  "lead_bits c =
     (let n = (of_char c :: nat)
      in if n < 0xC0 then n else if n < 0xE0 then n mod 32 else if n < 0xF0 then n mod 16
         else n mod 8)"

definition codepoint :: "char \<Rightarrow> string \<Rightarrow> nat" where
  "codepoint c conts = foldl (\<lambda>a x. a * 64 + of_char x mod 64) (lead_bits c) conts"

subsection \<open>\<open>repr\<close> of a string and \<open>str\<close> of a list of strings\<close>

text \<open>
  \<open>repr(s)\<close> quotes with \<open>'\<close>, or with \<open>"\<close> when \<open>s\<close> contains \<open>'\<close> and no \<open>"\<close>. Code
  point by code point it escapes the quote, the backslash, tab, newline, carriage return
  and the other ASCII control characters, copies the other ASCII characters, and for a
  code point from \<open>0x80\<close> on asks the interpreter's Unicode table: a printable one is
  copied, another one is written \<open>\xNN\<close>, \<open>\uNNNN\<close> or \<open>\UNNNNNNNN\<close> with lower-case
  digits. That table (\<open>str.isprintable\<close> on one code point) belongs to the interpreter and
  not to the program, and is the parameter \<open>isprintable\<close>.
  \<open>str(xs)\<close> of a list is \<open>'[' + ', '.join(repr(x) for x in xs) + ']'\<close>; an f-string field
  \<open>{xs}\<close> inserts \<open>str(xs)\<close>.
\<close>

definition repr_quote :: "string \<Rightarrow> char" where
  "repr_quote s = (if SQ \<in> set s \<and> DQ \<notin> set s then DQ else SQ)"

definition repr_char :: "(nat \<Rightarrow> bool) \<Rightarrow> char \<Rightarrow> string \<Rightarrow> string" where
  "repr_char isprintable q u =
     (case u of
        [] \<Rightarrow> []
      | c # conts \<Rightarrow>
          if c = q \<or> c = BSL then [BSL, c]
          else if c = CHR 0x09 then [BSL, CHR ''t'']
          else if c = NL then [BSL, CHR ''n'']
          else if c = CHR 0x0D then [BSL, CHR ''r'']
          else if (of_char c :: nat) < 0x20 \<or> c = CHR 0x7F
            then [BSL, CHR ''x'', hex_lower (of_char c div 16), hex_lower (of_char c mod 16)]
          else if (of_char c :: nat) < 0x7F then [c]
          else
            (let ch = codepoint c conts
             in if isprintable ch then c # conts
                else if ch \<le> 0xFF
                  then [BSL, CHR ''x'', hex_lower (ch div 16), hex_lower ch]
                else if ch \<le> 0xFFFF
                  then [BSL, CHR ''u'', hex_lower (ch div 4096), hex_lower (ch div 256),
                        hex_lower (ch div 16), hex_lower ch]
                else [BSL, CHR ''U'', hex_lower (ch div 268435456), hex_lower (ch div 16777216),
                      hex_lower (ch div 1048576), hex_lower (ch div 65536),
                      hex_lower (ch div 4096), hex_lower (ch div 256),
                      hex_lower (ch div 16), hex_lower ch]))"

definition repr_str :: "(nat \<Rightarrow> bool) \<Rightarrow> string \<Rightarrow> string" where
  "repr_str isprintable s =
     (let q = repr_quote s
      in [q] @ concat (map (repr_char isprintable q) (utf8_units s)) @ [q])"

definition str_of_list :: "(nat \<Rightarrow> bool) \<Rightarrow> string list \<Rightarrow> string" where
  "str_of_list isprintable xs = ''['' @ str_join '', '' (map (repr_str isprintable) xs) @ '']''"

subsection \<open>\<open>urllib.parse.quote_plus\<close>\<close>

text \<open>
  \<open>quote(string, safe)\<close> keeps the bytes of \<open>_ALWAYS_SAFE\<close> and of \<open>safe\<close> and writes every
  other byte as \<open>%XX\<close> with upper-case hexadecimal digits. \<open>quote_plus(string)\<close> is
  \<open>quote(string, '')\<close> when the string has no space, and otherwise
  \<open>quote(string, ' ').replace(' ', '+')\<close>. The set \<open>_ALWAYS_SAFE\<close> is the one of
  Python 3.7 and later, which has \<open>~\<close> in it.
\<close>

definition ALWAYS_SAFE :: string where
  "ALWAYS_SAFE = ''ABCDEFGHIJKLMNOPQRSTUVWXYZabcdefghijklmnopqrstuvwxyz0123456789_.-~''"

definition quote_byte :: "string \<Rightarrow> char \<Rightarrow> string" where
  "quote_byte safe c =
     (if c \<in> set (ALWAYS_SAFE @ safe) then [c]
      else [CHR ''%'', hex_upper (of_char c div 16), hex_upper (of_char c mod 16)])"

definition quote :: "string \<Rightarrow> string \<Rightarrow> string" where
  "quote safe s = concat (map (quote_byte safe) s)"

definition replace_char :: "char \<Rightarrow> char \<Rightarrow> string \<Rightarrow> string" where
  "replace_char old new s = map (\<lambda>c. if c = old then new else c) s"

definition quote_plus :: "string \<Rightarrow> string" where
  "quote_plus s =
     (if CHR '' '' \<notin> set s then quote [] s
      else replace_char (CHR '' '') (CHR ''+'') (quote '' '' s))"

section \<open>The engine\<close>

subsection \<open>Data\<close>

text \<open>
  The object returned by \<open>json.loads\<close>. Each of the four keys may be missing; a key that
  is present holds a value of the type the prompt asks for. The list \<open>choices\<close> may have
  any length.
\<close>

record narrative_data =
  narrative :: "string option"
  choices :: "string list option"
  image_prompt :: "string option"
  new_inventory :: "string list option"

text \<open>One entry of \<open>ADVENTURE_SESSIONS\<close>.\<close>

record session =
  story_log :: "string list"
  inventory :: "string list"

text \<open>
  The text-generation service together with the clean-up and parsing of its answer: for
  the story so far and the player's action it raises or yields the parsed object. It is a
  parameter of every operation that calls it, since the service is outside the program.
\<close>

type_synonym backend = "string list \<Rightarrow> string \<Rightarrow> py_error + narrative_data"

text \<open>
  The state of the process: the dictionary \<open>ADVENTURE_SESSIONS\<close>, and the arguments of
  every call of \<open>get_narrative_update\<close> so far, in order. One tool call runs to its end
  before the next one starts.
\<close>

record world =
  ADVENTURE_SESSIONS :: "string \<rightharpoonup> session"
  backend_calls :: "(string list \<times> string) list"

definition init_world :: world where
  "init_world = \<lparr>ADVENTURE_SESSIONS = Map.empty, backend_calls = []\<rparr>"

subsection \<open>Helper functions\<close>

definition get_narrative_update ::
  "backend \<Rightarrow> world \<Rightarrow> string list \<Rightarrow> string \<Rightarrow> world \<times> (py_error + narrative_data)" where
  "get_narrative_update llm w log user_choice =
     (w\<lparr>backend_calls := backend_calls w @ [(log, user_choice)]\<rparr>, llm log user_choice)"

definition get_scene_image :: "string \<Rightarrow> string" where
  "get_scene_image prompt =
     (let formatted_prompt = quote_plus prompt
      in ''https://via.placeholder.com/1024x1024.png?text='' @ formatted_prompt)"

subsection \<open>Tools\<close>

definition initial_prompt :: string where
  "initial_prompt = ''Start a new fantasy adventure for me in a mysterious, ancient forest.''"

text \<open>
  The last five lines of both response strings are the same text in \<open>start_adventure\<close> and
  in \<open>make_choice\<close>: the fields are evaluated left to right, so a missing \<open>choices\<close> key
  is met first, then index 1, then index 2. The field of line \<open>1.\<close> is the whole list,
  so it is written with \<open>str\<close> of a list, which needs the interpreter's table
  \<open>isprintable\<close>; the two tools that build a response pass it on.
\<close>

definition choices_menu :: "(nat \<Rightarrow> bool) \<Rightarrow> narrative_data \<Rightarrow> py_error + string" where
  "choices_menu isprintable nd =
     (case getitem ''choices'' (choices nd) of
        Inl e \<Rightarrow> Inl e
      | Inr cs \<Rightarrow>
          (case list_getitem cs 1 of
             Inl e \<Rightarrow> Inl e
           | Inr c1 \<Rightarrow>
               (case list_getitem cs 2 of
                  Inl e \<Rightarrow> Inl e
                | Inr c2 \<Rightarrow>
                    Inr (''What do you do?'' @ [NL]
                       @ ''1. '' @ str_of_list isprintable cs @ [NL]
                       @ ''2. '' @ c1 @ [NL]
                       @ ''3. '' @ c2 @ [NL]
                       @ ''4. Or, type your own action...''))))"

definition start_adventure ::
  "(nat \<Rightarrow> bool) \<Rightarrow> backend \<Rightarrow> world \<Rightarrow> string \<Rightarrow> world \<times> (py_error + string)" where
  "start_adventure isprintable llm w puch_user_id =
     (case ADVENTURE_SESSIONS w puch_user_id of
        Some sess \<Rightarrow>
          (case list_last (story_log sess) of
             Inl e \<Rightarrow> (w, Inl e)
           | Inr last_log \<Rightarrow>
               (w, Inr (''You are already in an adventure! Your last update was: '' @ last_log)))
      | None \<Rightarrow>
          (case get_narrative_update llm w [] initial_prompt of
             (w1, Inl e) \<Rightarrow> (w1, Inl e)
           | (w1, Inr nd) \<Rightarrow>
               (case getitem ''image_prompt'' (image_prompt nd) of
                  Inl e \<Rightarrow> (w1, Inl e)
                | Inr ip \<Rightarrow>
                    (let image_url = get_scene_image ip in
                     case getitem ''narrative'' (narrative nd) of
                       Inl e \<Rightarrow> (w1, Inl e)
                     | Inr narr \<Rightarrow>
                         (case getitem ''new_inventory'' (new_inventory nd) of
                            Inl e \<Rightarrow> (w1, Inl e)
                          | Inr new_inv \<Rightarrow>
                              (let w2 = w1\<lparr>ADVENTURE_SESSIONS :=
                                     (ADVENTURE_SESSIONS w1)(puch_user_id \<mapsto>
                                        \<lparr>story_log = [narr], inventory = new_inv\<rparr>)\<rparr>
                               in case choices_menu isprintable nd of
                                    Inl e \<Rightarrow> (w2, Inl e)
                                  | Inr menu \<Rightarrow>
                                      (w2, Inr (''A new adventure begins!'' @ [NL, NL]
                                         @ narr @ [NL, NL]
                                         @ ''Image: '' @ image_url @ [NL, NL]
                                         @ menu))))))))"

text \<open>
  \<open>make_choice\<close> changes the session in three steps, and the right-hand side of each step
  is evaluated just before it: the player's action is appended before \<open>narrative\<close> is
  looked up, and both entries are in the log before \<open>new_inventory\<close> is looked up.
\<close>

definition set_session :: "world \<Rightarrow> string \<Rightarrow> session \<Rightarrow> world" where
  "set_session w uid s = w\<lparr>ADVENTURE_SESSIONS := (ADVENTURE_SESSIONS w)(uid \<mapsto> s)\<rparr>"

definition make_choice ::
  "(nat \<Rightarrow> bool) \<Rightarrow> backend \<Rightarrow> world \<Rightarrow> string \<Rightarrow> string \<Rightarrow> world \<times> (py_error + string)" where
  "make_choice isprintable llm w puch_user_id choice =
     (case ADVENTURE_SESSIONS w puch_user_id of
        None \<Rightarrow>
          (w, Inr (''You haven'' @ [SQ] @ ''t started an adventure yet! Use the ''
                   @ [SQ] @ ''start_adventure'' @ [SQ] @ '' tool first.''))
      | Some current_session \<Rightarrow>
          (case get_narrative_update llm w (story_log current_session) choice of
             (w1, Inl e) \<Rightarrow> (w1, Inl e)
           | (w1, Inr nd) \<Rightarrow>
               (case getitem ''image_prompt'' (image_prompt nd) of
                  Inl e \<Rightarrow> (w1, Inl e)
                | Inr ip \<Rightarrow>
                    (let image_url = get_scene_image ip;
                         s1 = current_session\<lparr>story_log :=
                                story_log current_session @ [''Player chose: '' @ choice]\<rparr>;
                         w2 = set_session w1 puch_user_id s1
                     in case getitem ''narrative'' (narrative nd) of
                          Inl e \<Rightarrow> (w2, Inl e)
                        | Inr narr \<Rightarrow>
                            (let s2 = s1\<lparr>story_log := story_log s1 @ [narr]\<rparr>;
                                 w3 = set_session w2 puch_user_id s2
                             in case getitem ''new_inventory'' (new_inventory nd) of
                                  Inl e \<Rightarrow> (w3, Inl e)
                                | Inr new_inv \<Rightarrow>
                                    (let s3 = s2\<lparr>inventory := new_inv\<rparr>;
                                         w4 = set_session w3 puch_user_id s3
                                     in case choices_menu isprintable nd of
                                          Inl e \<Rightarrow> (w4, Inl e)
                                        | Inr menu \<Rightarrow>
                                            (w4, Inr (narr @ [NL, NL]
                                               @ ''Image: '' @ image_url @ [NL, NL]
                                               @ menu))))))))"

definition show_status :: "world \<Rightarrow> string \<Rightarrow> world \<times> (py_error + string)" where
  "show_status w puch_user_id =
     (case ADVENTURE_SESSIONS w puch_user_id of
        None \<Rightarrow>
          (w, Inr (''You haven'' @ [SQ] @ ''t started an adventure yet! Use the ''
                   @ [SQ] @ ''start_adventure'' @ [SQ] @ '' tool first.''))
      | Some sess \<Rightarrow>
          (if inventory sess = [] then (w, Inr ''Your inventory is empty.'')
           else (w, Inr (''Your inventory contains: '' @ str_join '', '' (inventory sess)))))"

definition reset_adventure :: "world \<Rightarrow> string \<Rightarrow> world \<times> (py_error + string)" where
  "reset_adventure w puch_user_id =
     (case ADVENTURE_SESSIONS w puch_user_id of
        Some sess \<Rightarrow>
          (w\<lparr>ADVENTURE_SESSIONS := (ADVENTURE_SESSIONS w)(puch_user_id := None)\<rparr>,
           Inr (''Your adventure has been reset. You can now start a new one by using the ''
                @ [SQ] @ ''start_adventure'' @ [SQ] @ '' tool.''))
      | None \<Rightarrow> (w, Inr ''You do not have an active adventure to reset.''))"

section \<open>Vocabulary of the properties\<close>

text \<open>
  The menu at the end of a response for a list of at least three choices, as the two
  format strings write it.
\<close>

definition menu_text :: "(nat \<Rightarrow> bool) \<Rightarrow> string list \<Rightarrow> string" where
  "menu_text pr cs = ''What do you do?'' @ [NL] @ ''1. '' @ str_of_list pr cs @ [NL]
                       @ ''2. '' @ cs ! 1 @ [NL]
                       @ ''3. '' @ cs ! 2 @ [NL]
                       @ ''4. Or, type your own action...''"

text \<open>
  The end-to-end scenario: the backend answers the first turn of user \<open>u1\<close> with a forest
  scene and every later turn with an escape; \<open>scenario_world\<close> is the state after the
  first turn. \<open>short_choices_backend\<close> answers with a single choice.
\<close>

definition scenario_start_data :: narrative_data where
  "scenario_start_data =
     \<lparr>narrative = Some ''You enter a forest.'',
      choices = Some [''Look'', ''Run'', ''Wait''],
      image_prompt = Some ''dark forest'',
      new_inventory = Some [''torch'']\<rparr>"

definition scenario_choice_data :: narrative_data where
  "scenario_choice_data =
     \<lparr>narrative = Some ''You flee safely.'',
      choices = Some [''Hide'', ''Rest'', ''Go on''],
      image_prompt = Some ''forest edge'',
      new_inventory = Some []\<rparr>"

definition scenario_backend :: backend where
  "scenario_backend log user_choice =
     (if log = [] then Inr scenario_start_data else Inr scenario_choice_data)"

definition scenario_world :: world where
  "scenario_world =
     \<lparr>ADVENTURE_SESSIONS =
        [''u1'' \<mapsto> \<lparr>story_log = [''You enter a forest.''], inventory = [''torch'']\<rparr>],
      backend_calls = [([], initial_prompt)]\<rparr>"

definition short_choices_backend :: backend where
  "short_choices_backend log user_choice = Inr (scenario_start_data\<lparr>choices := Some [''Look'']\<rparr>)"

text \<open>
  A table of printable code points for the examples. It agrees with the interpreter's
  table on the code points that the examples use: the control characters from \<open>0x80\<close> to
  \<open>0x9F\<close>, the no-break space \<open>0xA0\<close>, the soft hyphen \<open>0xAD\<close>, the zero-width and
  directional marks from \<open>0x200B\<close> to \<open>0x200F\<close>, the line and paragraph separators and
  the tag characters from \<open>0xE0000\<close> on are not printable.
\<close>

definition sample_isprintable :: "nat \<Rightarrow> bool" where
  "sample_isprintable ch =
     (\<not> (0x80 \<le> ch \<and> ch \<le> 0xA0) \<and> ch \<noteq> 0xAD \<and> \<not> (0x200B \<le> ch \<and> ch \<le> 0x200F) \<and>
      ch \<noteq> 0x2028 \<and> ch \<noteq> 0x2029 \<and> ch < 0xE0000)"

text \<open>
  The states the process can be in: it starts with no session, and every tool call,
  whatever it returns or raises, leads from a reachable state to a reachable state.
\<close>

inductive reachable :: "world \<Rightarrow> bool" where
  reachable_init: "reachable init_world"
| reachable_start: "reachable w \<Longrightarrow> reachable (fst (start_adventure pr llm w uid))"
| reachable_choice: "reachable w \<Longrightarrow> reachable (fst (make_choice pr llm w uid c))"
| reachable_status: "reachable w \<Longrightarrow> reachable (fst (show_status w uid))"
| reachable_reset: "reachable w \<Longrightarrow> reachable (fst (reset_adventure w uid))"

text \<open>
  The invariant of the data model: the log of an existing session is never empty.
\<close>

definition logs_nonempty :: "world \<Rightarrow> bool" where
  "logs_nonempty w = (\<forall>uid s. ADVENTURE_SESSIONS w uid = Some s \<longrightarrow> story_log s \<noteq> [])"

text \<open>
  A backend whose call raises.
\<close>

definition failing_backend :: backend where
  "failing_backend log user_choice = Inl BackendError"

text \<open>
  The encoding of one byte in the query of the image URL: a space is written \<open>+\<close>, a
  letter, a digit and each of \<open>_.-~\<close> is kept, and every other byte is written \<open>%XX\<close>.
\<close>

definition form_encode_byte :: "char \<Rightarrow> string" where
  "form_encode_byte c =
     (if c = CHR '' '' then ''+''
      else if c \<in> set ALWAYS_SAFE then [c]
      else [CHR ''%'', hex_upper (of_char c div 16), hex_upper (of_char c mod 16)])"





section \<open>Outcomes of the tools\<close>

lemma choices_menu_InrD:
  "choices_menu pr nd = Inr m \<Longrightarrow> \<exists>cs. choices nd = Some cs \<and> 3 \<le> length cs \<and> m = menu_text pr cs"
  by (auto simp: choices_menu_def getitem_def list_getitem_def menu_text_def split: option.splits if_splits)

lemma choices_menu_ok:
  "choices nd = Some cs \<Longrightarrow> 3 \<le> length cs \<Longrightarrow> choices_menu pr nd = Inr (menu_text pr cs)"
  by (auto simp: choices_menu_def getitem_def list_getitem_def menu_text_def split: option.splits)

lemma choices_menu_Inl:
  "choices_menu pr nd = Inl e \<longleftrightarrow>
     (choices nd = None \<and> e = KeyError ''choices'') \<or>
     (\<exists>cs. choices nd = Some cs \<and> length cs < 3 \<and> e = IndexError)"
  by (auto simp: choices_menu_def getitem_def list_getitem_def split: option.splits)

lemma start_adventure_fresh_Inr:
  assumes "ADVENTURE_SESSIONS w uid = None" and "snd (start_adventure pr llm w uid) = Inr resp"
  shows "\<exists>nd narr ip items cs. llm [] initial_prompt = Inr nd \<and> narrative nd = Some narr \<and>
           image_prompt nd = Some ip \<and> new_inventory nd = Some items \<and> choices nd = Some cs \<and>
           3 \<le> length cs \<and>
           start_adventure pr llm w uid =
             (w\<lparr>ADVENTURE_SESSIONS := (ADVENTURE_SESSIONS w)(uid \<mapsto> \<lparr>story_log = [narr], inventory = items\<rparr>),
                backend_calls := backend_calls w @ [([], initial_prompt)]\<rparr>,
              Inr (''A new adventure begins!'' @ [NL, NL] @ narr @ [NL, NL]
                   @ ''Image: '' @ get_scene_image ip @ [NL, NL] @ menu_text pr cs))"
  using assms
  by (auto simp: start_adventure_def get_narrative_update_def getitem_def choices_menu_ok Let_def
           split: option.splits sum.splits dest!: choices_menu_InrD)

lemma make_choice_active_Inr:
  assumes "ADVENTURE_SESSIONS w uid = Some sess" and "snd (make_choice pr llm w uid c) = Inr resp"
  shows "\<exists>nd narr ip items cs. llm (story_log sess) c = Inr nd \<and> narrative nd = Some narr \<and>
           image_prompt nd = Some ip \<and> new_inventory nd = Some items \<and> choices nd = Some cs \<and>
           3 \<le> length cs \<and>
           make_choice pr llm w uid c =
             (w\<lparr>ADVENTURE_SESSIONS := (ADVENTURE_SESSIONS w)(uid \<mapsto>
                   \<lparr>story_log = story_log sess @ [''Player chose: '' @ c, narr], inventory = items\<rparr>),
                backend_calls := backend_calls w @ [(story_log sess, c)]\<rparr>,
              Inr (narr @ [NL, NL]
                   @ ''Image: '' @ get_scene_image ip @ [NL, NL] @ menu_text pr cs))"
  using assms
  by (cases sess) (auto simp: make_choice_def get_narrative_update_def getitem_def choices_menu_ok Let_def set_session_def
           split: option.splits sum.splits dest!: choices_menu_InrD)

lemma start_adventure_fresh_ok:
  assumes "ADVENTURE_SESSIONS w uid = None" and "llm [] initial_prompt = Inr nd"
    and "narrative nd = Some narr" and "image_prompt nd = Some ip"
    and "new_inventory nd = Some items" and "choices nd = Some cs" and "3 \<le> length cs"
  shows "start_adventure pr llm w uid =
             (w\<lparr>ADVENTURE_SESSIONS := (ADVENTURE_SESSIONS w)(uid \<mapsto> \<lparr>story_log = [narr], inventory = items\<rparr>),
                backend_calls := backend_calls w @ [([], initial_prompt)]\<rparr>,
              Inr (''A new adventure begins!'' @ [NL, NL] @ narr @ [NL, NL]
                   @ ''Image: '' @ get_scene_image ip @ [NL, NL] @ menu_text pr cs))"
  using assms
  by (simp add: start_adventure_def get_narrative_update_def getitem_def choices_menu_ok Let_def)

lemma make_choice_active_ok:
  assumes "ADVENTURE_SESSIONS w uid = Some sess" and "llm (story_log sess) c = Inr nd"
    and "narrative nd = Some narr" and "image_prompt nd = Some ip"
    and "new_inventory nd = Some items" and "choices nd = Some cs" and "3 \<le> length cs"
  shows "make_choice pr llm w uid c =
             (w\<lparr>ADVENTURE_SESSIONS := (ADVENTURE_SESSIONS w)(uid \<mapsto>
                   \<lparr>story_log = story_log sess @ [''Player chose: '' @ c, narr], inventory = items\<rparr>),
                backend_calls := backend_calls w @ [(story_log sess, c)]\<rparr>,
              Inr (narr @ [NL, NL]
                   @ ''Image: '' @ get_scene_image ip @ [NL, NL] @ menu_text pr cs))"
  using assms
  by (cases sess) (simp add: make_choice_def get_narrative_update_def getitem_def choices_menu_ok Let_def set_session_def)

lemma scenario_start:
  "start_adventure sample_isprintable scenario_backend init_world ''u1'' =
     (scenario_world,
      Inr (''A new adventure begins!'' @ [NL, NL] @ ''You enter a forest.'' @ [NL, NL]
           @ ''Image: '' @ get_scene_image ''dark forest'' @ [NL, NL]
           @ menu_text sample_isprintable [''Look'', ''Run'', ''Wait'']))"
proof -
  have "ADVENTURE_SESSIONS init_world ''u1'' = None"
    by (simp add: init_world_def)
  moreover have "scenario_backend [] initial_prompt = Inr scenario_start_data"
    by (simp add: scenario_backend_def)
  ultimately show ?thesis
    by (simp add: start_adventure_fresh_ok [where cs = "[''Look'', ''Run'', ''Wait'']" and nd = scenario_start_data]
        scenario_start_data_def scenario_world_def init_world_def)
qed

lemma scenario_choice:
  "make_choice sample_isprintable scenario_backend scenario_world ''u1'' ''Run'' =
     (\<lparr>ADVENTURE_SESSIONS =
        [''u1'' \<mapsto> \<lparr>story_log = [''You enter a forest.'', ''Player chose: Run'', ''You flee safely.''],
                         inventory = []\<rparr>],
       backend_calls = [([], initial_prompt), ([''You enter a forest.''], ''Run'')]\<rparr>,
      Inr (''You flee safely.'' @ [NL, NL]
           @ ''Image: '' @ get_scene_image ''forest edge'' @ [NL, NL]
           @ menu_text sample_isprintable [''Hide'', ''Rest'', ''Go on'']))"
proof -
  have "ADVENTURE_SESSIONS scenario_world ''u1'' =
          Some \<lparr>story_log = [''You enter a forest.''], inventory = [''torch'']\<rparr>"
    by (simp add: scenario_world_def)
  moreover have "scenario_backend [''You enter a forest.''] ''Run'' = Inr scenario_choice_data"
    by (simp add: scenario_backend_def)
  ultimately show ?thesis
    by (simp add: make_choice_active_ok [where cs = "[''Hide'', ''Rest'', ''Go on'']" and nd = scenario_choice_data]
        scenario_choice_data_def scenario_world_def)
qed

section \<open>Properties of the tools\<close>

subsection \<open>Advancing a session\<close>

text \<open>
  C3: for a user with a session, a call of \<open>make_choice\<close> that returns a response has
  appended exactly two entries to that session's \<open>story_log\<close>, first the record
  \<open>Player chose: choice\<close> and then the backend's \<open>narrative\<close>, and has replaced
  \<open>inventory\<close> by the backend's \<open>new_inventory\<close>; the sessions of other users are as
  before.
\<close>

theorem advance_appends_two_and_replaces_inventory:
  assumes "ADVENTURE_SESSIONS w uid = Some sess"
    and "snd (make_choice pr llm w uid c) = Inr resp"
  shows "\<exists>nd narr items.
           llm (story_log sess) c = Inr nd \<and> narrative nd = Some narr \<and>
           new_inventory nd = Some items \<and>
           ADVENTURE_SESSIONS (fst (make_choice pr llm w uid c)) =
             (ADVENTURE_SESSIONS w)(uid \<mapsto>
                \<lparr>story_log = story_log sess @ [''Player chose: '' @ c, narr],
                 inventory = items\<rparr>)"
proof -
  from make_choice_active_Inr [OF assms]
  obtain nd narr ip items cs where
    "llm (story_log sess) c = Inr nd" "narrative nd = Some narr" "new_inventory nd = Some items"
    and eq: "make_choice pr llm w uid c =
             (w\<lparr>ADVENTURE_SESSIONS := (ADVENTURE_SESSIONS w)(uid \<mapsto>
                   \<lparr>story_log = story_log sess @ [''Player chose: '' @ c, narr], inventory = items\<rparr>),
                backend_calls := backend_calls w @ [(story_log sess, c)]\<rparr>,
              Inr (narr @ [NL, NL]
                   @ ''Image: '' @ get_scene_image ip @ [NL, NL] @ menu_text pr cs))"
    by blast
  then show ?thesis by simp
qed

theorem advance_appends_two_and_replaces_inventory_witness:
  "ADVENTURE_SESSIONS scenario_world ''u1'' =
     Some \<lparr>story_log = [''You enter a forest.''], inventory = [''torch'']\<rparr> \<and>
   (\<exists>resp. snd (make_choice sample_isprintable scenario_backend scenario_world ''u1'' ''Run'') = Inr resp) \<and>
   ADVENTURE_SESSIONS (fst (make_choice sample_isprintable scenario_backend scenario_world ''u1'' ''Run'')) ''u1'' =
     Some \<lparr>story_log = [''You enter a forest.'', ''Player chose: Run'', ''You flee safely.''],
           inventory = []\<rparr>"
proof -
  have h1: "ADVENTURE_SESSIONS scenario_world ''u1'' =
     Some \<lparr>story_log = [''You enter a forest.''], inventory = [''torch'']\<rparr>"
    by (simp add: scenario_world_def)
  obtain resp where h2: "snd (make_choice sample_isprintable scenario_backend scenario_world ''u1'' ''Run'') = Inr resp"
    by (simp add: scenario_choice)
  from advance_appends_two_and_replaces_inventory [OF h1 h2]
  show ?thesis using h1 h2
    by (auto simp: scenario_backend_def scenario_choice_data_def)
qed

subsection \<open>Starting a session\<close>

text \<open>
  C4: for a user with no session, a call of \<open>start_adventure\<close> that returns a response has
  created exactly one session, for that user, whose \<open>story_log\<close> is the one-element list
  of the backend's \<open>narrative\<close> and whose \<open>inventory\<close> is the backend's
  \<open>new_inventory\<close>.
\<close>

theorem start_creates_one_session:
  assumes "ADVENTURE_SESSIONS w uid = None"
    and "snd (start_adventure pr llm w uid) = Inr resp"
  shows "\<exists>nd narr items.
           llm [] initial_prompt = Inr nd \<and> narrative nd = Some narr \<and>
           new_inventory nd = Some items \<and>
           ADVENTURE_SESSIONS (fst (start_adventure pr llm w uid)) =
             (ADVENTURE_SESSIONS w)(uid \<mapsto> \<lparr>story_log = [narr], inventory = items\<rparr>) \<and>
           dom (ADVENTURE_SESSIONS (fst (start_adventure pr llm w uid))) =
             insert uid (dom (ADVENTURE_SESSIONS w))"
proof -
  from start_adventure_fresh_Inr [OF assms]
  obtain nd narr ip items cs where
    "llm [] initial_prompt = Inr nd" "narrative nd = Some narr" "new_inventory nd = Some items"
    and eq: "start_adventure pr llm w uid =
             (w\<lparr>ADVENTURE_SESSIONS := (ADVENTURE_SESSIONS w)(uid \<mapsto> \<lparr>story_log = [narr], inventory = items\<rparr>),
                backend_calls := backend_calls w @ [([], initial_prompt)]\<rparr>,
              Inr (''A new adventure begins!'' @ [NL, NL] @ narr @ [NL, NL]
                   @ ''Image: '' @ get_scene_image ip @ [NL, NL] @ menu_text pr cs))"
    by blast
  then show ?thesis by simp
qed

theorem start_creates_one_session_witness:
  "ADVENTURE_SESSIONS init_world ''u1'' = None \<and>
   (\<exists>resp. snd (start_adventure sample_isprintable scenario_backend init_world ''u1'') = Inr resp) \<and>
   ADVENTURE_SESSIONS (fst (start_adventure sample_isprintable scenario_backend init_world ''u1'')) =
     [''u1'' \<mapsto> \<lparr>story_log = [''You enter a forest.''], inventory = [''torch'']\<rparr>] \<and>
   dom (ADVENTURE_SESSIONS (fst (start_adventure sample_isprintable scenario_backend init_world ''u1''))) = {''u1''}"
proof -
  have h1: "ADVENTURE_SESSIONS init_world ''u1'' = None"
    by (simp add: init_world_def)
  obtain resp where h2: "snd (start_adventure sample_isprintable scenario_backend init_world ''u1'') = Inr resp"
    by (simp add: scenario_start)
  from start_creates_one_session [OF h1 h2]
  show ?thesis using h1 h2
    by (auto simp: scenario_backend_def scenario_start_data_def init_world_def)
qed

subsection \<open>Tools called without a session\<close>

text \<open>
  C6: for a user with no session, \<open>make_choice\<close> and \<open>show_status\<close> return the same
  message, letter for letter, and leave the whole state (the sessions and the record of
  backend calls) as it was.
\<close>

theorem no_session_advance_and_status:
  assumes "ADVENTURE_SESSIONS w uid = None"
  shows "make_choice pr llm w uid c =
           (w, Inr (''You haven'' @ [SQ] @ ''t started an adventure yet! Use the ''
                    @ [SQ] @ ''start_adventure'' @ [SQ] @ '' tool first.'')) \<and>
         show_status w uid =
           (w, Inr (''You haven'' @ [SQ] @ ''t started an adventure yet! Use the ''
                    @ [SQ] @ ''start_adventure'' @ [SQ] @ '' tool first.''))"
  using assms by (simp add: make_choice_def show_status_def)

theorem no_session_advance_and_status_witness:
  "ADVENTURE_SESSIONS init_world ''u1'' = None \<and>
   make_choice sample_isprintable scenario_backend init_world ''u1'' ''Run'' =
     (init_world, Inr (''You haven'' @ [SQ] @ ''t started an adventure yet! Use the ''
                    @ [SQ] @ ''start_adventure'' @ [SQ] @ '' tool first.'')) \<and>
   show_status init_world ''u1'' = make_choice sample_isprintable scenario_backend init_world ''u1'' ''Run''"
proof -
  have h: "ADVENTURE_SESSIONS init_world ''u1'' = None"
    by (simp add: init_world_def)
  show ?thesis
    using h no_session_advance_and_status [OF h, of sample_isprintable scenario_backend "''Run''"] by simp
qed

subsection \<open>The first backend call\<close>

text \<open>
  The initial player action that \<open>start_adventure\<close> passes to the backend is not the
  string \<open>begin a new adventure in a mysterious forest\<close>.
\<close>

theorem start_backend_call_counterexample:
  "backend_calls (fst (start_adventure sample_isprintable scenario_backend init_world ''u1'')) \<noteq>
     backend_calls init_world @ [([], ''begin a new adventure in a mysterious forest'')]"
  unfolding scenario_start
  by (simp add: scenario_world_def init_world_def initial_prompt_def)

text \<open>
  C9 (amended): for a user with no session, \<open>start_adventure\<close> calls the backend adapter
  exactly once, with an empty prior log and the initial player action
  \<open>Start a new fantasy adventure for me in a mysterious, ancient forest.\<close>
\<close>

theorem start_calls_backend_with_empty_log:
  assumes "ADVENTURE_SESSIONS w uid = None"
  shows "backend_calls (fst (start_adventure pr llm w uid)) =
           backend_calls w @
             [([], ''Start a new fantasy adventure for me in a mysterious, ancient forest.'')]"
  using assms
  by (simp add: start_adventure_def get_narrative_update_def getitem_def Let_def initial_prompt_def
      split: sum.splits option.splits)

theorem start_calls_backend_with_empty_log_witness:
  "ADVENTURE_SESSIONS init_world ''u1'' = None \<and>
   backend_calls (fst (start_adventure sample_isprintable scenario_backend init_world ''u1'')) =
     [([], ''Start a new fantasy adventure for me in a mysterious, ancient forest.'')]"
proof -
  have h: "ADVENTURE_SESSIONS init_world ''u1'' = None"
    by (simp add: init_world_def)
  show ?thesis
    using h start_calls_backend_with_empty_log [OF h, of sample_isprintable scenario_backend]
    by (simp add: init_world_def)
qed

subsection \<open>The log of a session is never empty\<close>

lemma logs_nonempty_start:
  "logs_nonempty w \<Longrightarrow> logs_nonempty (fst (start_adventure pr llm w uid))"
  by (auto simp: logs_nonempty_def start_adventure_def get_narrative_update_def Let_def
      split: option.splits sum.splits if_splits)

lemma logs_nonempty_choice:
  "logs_nonempty w \<Longrightarrow> logs_nonempty (fst (make_choice pr llm w uid c))"
  by (auto simp: logs_nonempty_def make_choice_def get_narrative_update_def Let_def set_session_def
      split: option.splits sum.splits if_splits)

lemma logs_nonempty_status:
  "logs_nonempty w \<Longrightarrow> logs_nonempty (fst (show_status w uid))"
  by (auto simp: show_status_def split: option.splits)

lemma logs_nonempty_reset:
  "logs_nonempty w \<Longrightarrow> logs_nonempty (fst (reset_adventure w uid))"
  by (auto simp: logs_nonempty_def reset_adventure_def split: option.splits if_splits)

lemma reachable_logs_nonempty: "reachable w \<Longrightarrow> logs_nonempty w"
proof (induction rule: reachable.induct)
  case reachable_init
  show ?case by (simp add: logs_nonempty_def init_world_def)
next
  case (reachable_start w llm uid)
  then show ?case by (simp add: logs_nonempty_start)
next
  case (reachable_choice w llm uid c)
  then show ?case by (simp add: logs_nonempty_choice)
next
  case (reachable_status w uid)
  then show ?case by (simp add: logs_nonempty_status)
next
  case (reachable_reset w uid)
  then show ?case by (simp add: logs_nonempty_reset)
qed

lemma reachable_scenario_world: "reachable scenario_world"
  using reachable_start [OF reachable_init, of sample_isprintable scenario_backend "''u1''"]
  by (simp add: scenario_start)

subsection \<open>Starting twice\<close>

text \<open>
  C5: in every reachable state, for a user with a session, \<open>start_adventure\<close> leaves
  the whole state as it was (the session's \<open>story_log\<close> and \<open>inventory\<close>, and the record
  of backend calls, so no backend call is made) and returns a message that ends with the
  last entry of the log, verbatim; that entry exists.
\<close>

theorem start_again_is_a_peek:
  assumes "reachable w" and "ADVENTURE_SESSIONS w uid = Some sess"
  shows "story_log sess \<noteq> [] \<and>
         start_adventure pr llm w uid =
           (w, Inr (''You are already in an adventure! Your last update was: ''
                    @ last (story_log sess)))"
proof -
  from reachable_logs_nonempty [OF assms(1)] assms(2) have "story_log sess \<noteq> []"
    by (auto simp: logs_nonempty_def)
  with assms(2) show ?thesis
    by (simp add: start_adventure_def list_last_def)
qed

theorem start_again_is_a_peek_witness:
  "reachable scenario_world \<and>
   ADVENTURE_SESSIONS scenario_world ''u1'' =
     Some \<lparr>story_log = [''You enter a forest.''], inventory = [''torch'']\<rparr> \<and>
   start_adventure sample_isprintable scenario_backend scenario_world ''u1'' =
     (scenario_world,
      Inr ''You are already in an adventure! Your last update was: You enter a forest.'')"
proof -
  have h: "ADVENTURE_SESSIONS scenario_world ''u1'' =
     Some \<lparr>story_log = [''You enter a forest.''], inventory = [''torch'']\<rparr>"
    by (simp add: scenario_world_def)
  show ?thesis
    using reachable_scenario_world h
      start_again_is_a_peek [OF reachable_scenario_world h, of sample_isprintable scenario_backend]
    by simp
qed

subsection \<open>Resetting\<close>

text \<open>
  C7: \<open>reset_adventure\<close> for a user with a session removes that session and returns the
  confirmation, after which \<open>show_status\<close> returns the message for a missing session;
  for a user with no session it leaves the state as it was and returns another message;
  a second call right after a first one always returns that no-op message and leaves the
  state of the first call.
\<close>

theorem reset_removes_and_is_idempotent:
  "(ADVENTURE_SESSIONS w uid = Some sess \<longrightarrow>
      reset_adventure w uid =
        (w\<lparr>ADVENTURE_SESSIONS := (ADVENTURE_SESSIONS w)(uid := None)\<rparr>,
         Inr (''Your adventure has been reset. You can now start a new one by using the ''
              @ [SQ] @ ''start_adventure'' @ [SQ] @ '' tool.'')) \<and>
      snd (show_status (fst (reset_adventure w uid)) uid) =
        Inr (''You haven'' @ [SQ] @ ''t started an adventure yet! Use the ''
             @ [SQ] @ ''start_adventure'' @ [SQ] @ '' tool first.'')) \<and>
   (ADVENTURE_SESSIONS w uid = None \<longrightarrow>
      reset_adventure w uid = (w, Inr ''You do not have an active adventure to reset.'')) \<and>
   reset_adventure (fst (reset_adventure w uid)) uid =
     (fst (reset_adventure w uid), Inr ''You do not have an active adventure to reset.'') \<and>
   ''You do not have an active adventure to reset.'' \<noteq>
     ''Your adventure has been reset. You can now start a new one by using the ''
       @ [SQ] @ ''start_adventure'' @ [SQ] @ '' tool.''"
  by (auto simp: reset_adventure_def show_status_def split: option.splits)

theorem reset_removes_and_is_idempotent_witness:
  "ADVENTURE_SESSIONS scenario_world ''u1'' =
     Some \<lparr>story_log = [''You enter a forest.''], inventory = [''torch'']\<rparr> \<and>
   reset_adventure scenario_world ''u1'' =
     (\<lparr>ADVENTURE_SESSIONS = Map.empty, backend_calls = [([], initial_prompt)]\<rparr>,
      Inr (''Your adventure has been reset. You can now start a new one by using the ''
              @ [SQ] @ ''start_adventure'' @ [SQ] @ '' tool.'')) \<and>
   ADVENTURE_SESSIONS init_world ''u1'' = None \<and>
   reset_adventure init_world ''u1'' =
     (init_world, Inr ''You do not have an active adventure to reset.'')"
proof -
  have h1: "ADVENTURE_SESSIONS scenario_world ''u1'' =
     Some \<lparr>story_log = [''You enter a forest.''], inventory = [''torch'']\<rparr>"
    by (simp add: scenario_world_def)
  have h2: "ADVENTURE_SESSIONS init_world ''u1'' = None"
    by (simp add: init_world_def)
  have "scenario_world\<lparr>ADVENTURE_SESSIONS := (ADVENTURE_SESSIONS scenario_world)(''u1'' := None)\<rparr> =
     \<lparr>ADVENTURE_SESSIONS = Map.empty, backend_calls = [([], initial_prompt)]\<rparr>"
    by (simp add: scenario_world_def)
  then show ?thesis
    using h1 h2
      reset_removes_and_is_idempotent [of scenario_world "''u1''"
        "\<lparr>story_log = [''You enter a forest.''], inventory = [''torch'']\<rparr>"]
      reset_removes_and_is_idempotent [of init_world "''u1''"]
    by simp
qed

subsection \<open>Fewer than three choices\<close>

text \<open>
  For a user who has a session, \<open>start_adventure\<close> returns its message whatever the
  backend would answer, also a result with a single choice: it does not fail.
\<close>

theorem short_choices_start_counterexample:
  "ADVENTURE_SESSIONS scenario_world ''u1'' =
     Some \<lparr>story_log = [''You enter a forest.''], inventory = [''torch'']\<rparr> \<and>
   short_choices_backend [] initial_prompt =
     Inr \<lparr>narrative = Some ''You enter a forest.'', choices = Some [''Look''],
          image_prompt = Some ''dark forest'', new_inventory = Some [''torch'']\<rparr> \<and>
   start_adventure sample_isprintable short_choices_backend scenario_world ''u1'' =
     (scenario_world,
      Inr ''You are already in an adventure! Your last update was: You enter a forest.'')"
  by (simp add: scenario_world_def short_choices_backend_def scenario_start_data_def
      start_adventure_def list_last_def)

text \<open>
  C2 (amended): for every parsed backend result that has the other three keys and whose
  \<open>choices\<close> has fewer than 3 entries, \<open>start_adventure\<close> for a user with no session and
  \<open>make_choice\<close> for a user with a session raise \<open>IndexError\<close> while formatting the
  second or third choice, and return no response.
\<close>

theorem short_choices_raise_index_error:
  assumes "choices nd = Some cs" and "length cs < 3"
    and "narrative nd = Some narr" and "image_prompt nd = Some ip"
    and "new_inventory nd = Some items"
  shows "(ADVENTURE_SESSIONS w uid = None \<and> llm [] initial_prompt = Inr nd \<longrightarrow>
            snd (start_adventure pr llm w uid) = Inl IndexError) \<and>
         (ADVENTURE_SESSIONS w uid = Some sess \<and> llm (story_log sess) c = Inr nd \<longrightarrow>
            snd (make_choice pr llm w uid c) = Inl IndexError)"
proof -
  from assms(1,2) have "choices_menu pr nd = Inl IndexError"
    by (simp add: choices_menu_Inl)
  with assms(3-5) show ?thesis
    by (simp add: start_adventure_def make_choice_def get_narrative_update_def getitem_def Let_def)
qed

theorem short_choices_raise_index_error_witness:
  "ADVENTURE_SESSIONS init_world ''u1'' = None \<and>
   snd (start_adventure sample_isprintable short_choices_backend init_world ''u1'') = Inl IndexError \<and>
   ADVENTURE_SESSIONS scenario_world ''u1'' =
     Some \<lparr>story_log = [''You enter a forest.''], inventory = [''torch'']\<rparr> \<and>
   snd (make_choice sample_isprintable short_choices_backend scenario_world ''u1'' ''Run'') = Inl IndexError"
proof -
  let ?nd = "scenario_start_data\<lparr>choices := Some [''Look'']\<rparr>"
  let ?sess = "\<lparr>story_log = [''You enter a forest.''], inventory = [''torch'']\<rparr>"
  have nd: "choices ?nd = Some [''Look'']" "length [''Look''] < 3"
    "narrative ?nd = Some ''You enter a forest.''" "image_prompt ?nd = Some ''dark forest''"
    "new_inventory ?nd = Some [''torch'']"
    by (simp_all add: scenario_start_data_def)
  have h1: "ADVENTURE_SESSIONS init_world ''u1'' = None"
    by (simp add: init_world_def)
  have h2: "ADVENTURE_SESSIONS scenario_world ''u1'' = Some ?sess"
    by (simp add: scenario_world_def)
  have b: "short_choices_backend [] initial_prompt = Inr ?nd"
    "short_choices_backend (story_log ?sess) ''Run'' = Inr ?nd"
    by (simp_all add: short_choices_backend_def)
  show ?thesis
    using h1 h2 b
      short_choices_raise_index_error [OF nd, where w = init_world and uid = "''u1''"
        and llm = short_choices_backend and pr = sample_isprintable]
      short_choices_raise_index_error [OF nd, where w = scenario_world and uid = "''u1''"
        and llm = short_choices_backend and pr = sample_isprintable and sess = ?sess
        and c = "''Run''"]
    by simp
qed

subsection \<open>The session store after a failing call\<close>

text \<open>
  A call of \<open>start_adventure\<close> that fails while formatting the response, because the
  backend gave a single choice, has already created the session.
\<close>

theorem formatting_failure_counterexample:
  "ADVENTURE_SESSIONS init_world ''u1'' = None \<and>
   snd (start_adventure sample_isprintable short_choices_backend init_world ''u1'') = Inl IndexError \<and>
   ADVENTURE_SESSIONS (fst (start_adventure sample_isprintable short_choices_backend init_world ''u1'')) ''u1'' =
     Some \<lparr>story_log = [''You enter a forest.''], inventory = [''torch'']\<rparr>"
  by (simp add: init_world_def short_choices_backend_def scenario_start_data_def
      start_adventure_def get_narrative_update_def getitem_def choices_menu_def list_getitem_def
      Let_def)

text \<open>
  C1 (amended): a call that fails before the session is written leaves the session store
  as it was: for \<open>start_adventure\<close> that is a failing backend call or a result without
  \<open>image_prompt\<close>, \<open>narrative\<close> or \<open>new_inventory\<close>, for \<open>make_choice\<close> a failing
  backend call or a result without \<open>image_prompt\<close>. A call that fails while formatting
  the response (\<open>choices\<close> missing or shorter than 3) fails after the write:
  \<open>start_adventure\<close> has created the session, and \<open>make_choice\<close> has appended both
  entries and replaced the inventory.
\<close>

theorem failure_leaves_store_unless_formatting:
  "(ADVENTURE_SESSIONS w uid = None \<and>
      (llm [] initial_prompt = Inl e \<or>
       llm [] initial_prompt = Inr nd \<and>
         (image_prompt nd = None \<or> narrative nd = None \<or> new_inventory nd = None)) \<longrightarrow>
      isl (snd (start_adventure pr llm w uid)) \<and>
      ADVENTURE_SESSIONS (fst (start_adventure pr llm w uid)) = ADVENTURE_SESSIONS w) \<and>
   (ADVENTURE_SESSIONS w uid = Some sess \<and>
      (llm (story_log sess) c = Inl e \<or>
       llm (story_log sess) c = Inr nd \<and> image_prompt nd = None) \<longrightarrow>
      isl (snd (make_choice pr llm w uid c)) \<and>
      ADVENTURE_SESSIONS (fst (make_choice pr llm w uid c)) = ADVENTURE_SESSIONS w) \<and>
   (ADVENTURE_SESSIONS w uid = None \<and> llm [] initial_prompt = Inr nd \<and>
      image_prompt nd = Some ip \<and> narrative nd = Some narr \<and> new_inventory nd = Some items \<and>
      (choices nd = None \<or> (\<exists>cs. choices nd = Some cs \<and> length cs < 3)) \<longrightarrow>
      isl (snd (start_adventure pr llm w uid)) \<and>
      ADVENTURE_SESSIONS (fst (start_adventure pr llm w uid)) =
        (ADVENTURE_SESSIONS w)(uid \<mapsto> \<lparr>story_log = [narr], inventory = items\<rparr>)) \<and>
   (ADVENTURE_SESSIONS w uid = Some sess \<and> llm (story_log sess) c = Inr nd \<and>
      image_prompt nd = Some ip \<and> narrative nd = Some narr \<and> new_inventory nd = Some items \<and>
      (choices nd = None \<or> (\<exists>cs. choices nd = Some cs \<and> length cs < 3)) \<longrightarrow>
      isl (snd (make_choice pr llm w uid c)) \<and>
      ADVENTURE_SESSIONS (fst (make_choice pr llm w uid c)) =
        (ADVENTURE_SESSIONS w)(uid \<mapsto>
           \<lparr>story_log = story_log sess @ [''Player chose: '' @ c, narr], inventory = items\<rparr>))"
proof (intro conjI impI)
  assume "ADVENTURE_SESSIONS w uid = None \<and>
      (llm [] initial_prompt = Inl e \<or>
       llm [] initial_prompt = Inr nd \<and>
         (image_prompt nd = None \<or> narrative nd = None \<or> new_inventory nd = None))"
  then show "isl (snd (start_adventure pr llm w uid))"
    and "ADVENTURE_SESSIONS (fst (start_adventure pr llm w uid)) = ADVENTURE_SESSIONS w"
    by (auto simp: start_adventure_def get_narrative_update_def getitem_def Let_def
        split: option.splits)
next
  assume "ADVENTURE_SESSIONS w uid = Some sess \<and>
      (llm (story_log sess) c = Inl e \<or>
       llm (story_log sess) c = Inr nd \<and> image_prompt nd = None)"
  then show "isl (snd (make_choice pr llm w uid c))"
    and "ADVENTURE_SESSIONS (fst (make_choice pr llm w uid c)) = ADVENTURE_SESSIONS w"
    by (auto simp: make_choice_def get_narrative_update_def getitem_def Let_def)
next
  assume a: "ADVENTURE_SESSIONS w uid = None \<and> llm [] initial_prompt = Inr nd \<and>
      image_prompt nd = Some ip \<and> narrative nd = Some narr \<and> new_inventory nd = Some items \<and>
      (choices nd = None \<or> (\<exists>cs. choices nd = Some cs \<and> length cs < 3))"
  then obtain e' where "choices_menu pr nd = Inl e'"
    by (auto simp: choices_menu_Inl)
  with a show "isl (snd (start_adventure pr llm w uid))"
    and "ADVENTURE_SESSIONS (fst (start_adventure pr llm w uid)) =
        (ADVENTURE_SESSIONS w)(uid \<mapsto> \<lparr>story_log = [narr], inventory = items\<rparr>)"
    by (simp_all add: start_adventure_def get_narrative_update_def getitem_def Let_def)
next
  assume a: "ADVENTURE_SESSIONS w uid = Some sess \<and> llm (story_log sess) c = Inr nd \<and>
      image_prompt nd = Some ip \<and> narrative nd = Some narr \<and> new_inventory nd = Some items \<and>
      (choices nd = None \<or> (\<exists>cs. choices nd = Some cs \<and> length cs < 3))"
  then obtain e' where "choices_menu pr nd = Inl e'"
    by (auto simp: choices_menu_Inl)
  with a show "isl (snd (make_choice pr llm w uid c))"
    and "ADVENTURE_SESSIONS (fst (make_choice pr llm w uid c)) =
        (ADVENTURE_SESSIONS w)(uid \<mapsto>
           \<lparr>story_log = story_log sess @ [''Player chose: '' @ c, narr], inventory = items\<rparr>)"
    by (cases sess; simp add: make_choice_def get_narrative_update_def getitem_def Let_def
        set_session_def)+
qed

theorem failure_leaves_store_unless_formatting_witness:
  "(ADVENTURE_SESSIONS init_world ''u1'' = None \<and>
    failing_backend [] initial_prompt = Inl BackendError \<and>
    isl (snd (start_adventure sample_isprintable failing_backend init_world ''u1'')) \<and>
    ADVENTURE_SESSIONS (fst (start_adventure sample_isprintable failing_backend init_world ''u1'')) =
      ADVENTURE_SESSIONS init_world) \<and>
   (ADVENTURE_SESSIONS scenario_world ''u1'' =
      Some \<lparr>story_log = [''You enter a forest.''], inventory = [''torch'']\<rparr> \<and>
    failing_backend [''You enter a forest.''] ''Run'' = Inl BackendError \<and>
    isl (snd (make_choice sample_isprintable failing_backend scenario_world ''u1'' ''Run'')) \<and>
    ADVENTURE_SESSIONS (fst (make_choice sample_isprintable failing_backend scenario_world ''u1'' ''Run'')) =
      ADVENTURE_SESSIONS scenario_world) \<and>
   (isl (snd (start_adventure sample_isprintable short_choices_backend init_world ''u1'')) \<and>
    ADVENTURE_SESSIONS (fst (start_adventure sample_isprintable short_choices_backend init_world ''u1'')) =
      [''u1'' \<mapsto> \<lparr>story_log = [''You enter a forest.''], inventory = [''torch'']\<rparr>]) \<and>
   (isl (snd (make_choice sample_isprintable short_choices_backend scenario_world ''u1'' ''Run'')) \<and>
    ADVENTURE_SESSIONS (fst (make_choice sample_isprintable short_choices_backend scenario_world ''u1'' ''Run'')) =
      [''u1'' \<mapsto> \<lparr>story_log = [''You enter a forest.'', ''Player chose: Run'',
                                     ''You enter a forest.''],
                        inventory = [''torch'']\<rparr>])"
proof -
  let ?nd = "scenario_start_data\<lparr>choices := Some [''Look'']\<rparr>"
  let ?sess = "\<lparr>story_log = [''You enter a forest.''], inventory = [''torch'']\<rparr>"
  have h1: "ADVENTURE_SESSIONS init_world ''u1'' = None"
    and e1: "ADVENTURE_SESSIONS init_world = Map.empty"
    by (simp_all add: init_world_def)
  have h2: "ADVENTURE_SESSIONS scenario_world ''u1'' = Some ?sess"
    and e2: "ADVENTURE_SESSIONS scenario_world = [''u1'' \<mapsto> ?sess]"
    by (simp_all add: scenario_world_def)
  have f: "failing_backend [] initial_prompt = Inl BackendError"
    "failing_backend (story_log ?sess) ''Run'' = Inl BackendError"
    by (simp_all add: failing_backend_def)
  have b: "short_choices_backend [] initial_prompt = Inr ?nd"
    "short_choices_backend (story_log ?sess) ''Run'' = Inr ?nd"
    by (simp_all add: short_choices_backend_def)
  have nd: "image_prompt ?nd = Some ''dark forest''" "narrative ?nd = Some ''You enter a forest.''"
    "new_inventory ?nd = Some [''torch'']" "choices ?nd = Some [''Look'']"
    by (simp_all add: scenario_start_data_def)
  show ?thesis
    using h1 h2 f b nd
      failure_leaves_store_unless_formatting [where w = init_world and uid = "''u1''"
        and llm = failing_backend and pr = sample_isprintable and e = BackendError]
      failure_leaves_store_unless_formatting [where w = scenario_world and uid = "''u1''"
        and llm = failing_backend and pr = sample_isprintable and e = BackendError and sess = ?sess and c = "''Run''"]
      failure_leaves_store_unless_formatting [where w = init_world and uid = "''u1''"
        and llm = short_choices_backend and pr = sample_isprintable and nd = ?nd and ip = "''dark forest''"
        and narr = "''You enter a forest.''" and items = "[''torch'']"]
      failure_leaves_store_unless_formatting [where w = scenario_world and uid = "''u1''"
        and llm = short_choices_backend and pr = sample_isprintable and nd = ?nd and ip = "''dark forest''"
        and narr = "''You enter a forest.''" and items = "[''torch'']"
        and sess = ?sess and c = "''Run''"]
    by (simp add: e1 e2)
qed

subsection \<open>The image URL\<close>

lemma hex_upper_digit: "hex_upper n \<in> set ''0123456789ABCDEF''"
proof -
  have "n mod 16 < length ''0123456789ABCDEF''" by simp
  then show ?thesis unfolding hex_upper_def by (rule nth_mem)
qed

lemma hex_upper_safe: "hex_upper n \<in> set ALWAYS_SAFE"
  using hex_upper_digit [of n] by (auto simp: ALWAYS_SAFE_def)

lemma space_not_safe: "CHR '' '' \<notin> set ALWAYS_SAFE"
  by (simp add: ALWAYS_SAFE_def)

lemma bang_not_safe: "CHR ''!'' \<notin> set ALWAYS_SAFE"
  by (simp add: ALWAYS_SAFE_def)

lemma hex_upper_not_space: "hex_upper n \<noteq> CHR '' ''"
  using hex_upper_safe [of n] space_not_safe by auto

lemma quote_byte_plain: "c \<noteq> CHR '' '' \<Longrightarrow> quote_byte [] c = form_encode_byte c"
  by (simp add: quote_byte_def form_encode_byte_def)

lemma quote_byte_replaced:
  "replace_char (CHR '' '') (CHR ''+'') (quote_byte '' '' c) = form_encode_byte c"
  using space_not_safe
  by (auto simp: quote_byte_def form_encode_byte_def replace_char_def hex_upper_not_space)

lemma replace_char_concat:
  "replace_char a b (concat xss) = concat (map (replace_char a b) xss)"
  by (induction xss) (simp_all add: replace_char_def)

lemma quote_plus_bytewise: "quote_plus s = concat (map form_encode_byte s)"
proof (cases "CHR '' '' \<in> set s")
  case False
  then have eq: "map (quote_byte []) s = map form_encode_byte s"
    by (intro map_cong refl quote_byte_plain) auto
  from False have "quote_plus s = concat (map (quote_byte []) s)"
    by (simp add: quote_plus_def quote_def)
  then show ?thesis by (simp only: eq)
next
  case True
  then have "quote_plus s =
      concat (map (\<lambda>c. replace_char (CHR '' '') (CHR ''+'') (quote_byte '' '' c)) s)"
    by (simp add: quote_plus_def quote_def replace_char_concat comp_def)
  then show ?thesis by (simp only: quote_byte_replaced)
qed

lemma form_encode_byte_chars:
  "set (form_encode_byte c) \<subseteq> set ALWAYS_SAFE \<union> {CHR ''+'', CHR ''%''}"
  by (auto simp: form_encode_byte_def hex_upper_safe)

lemma quote_plus_chars: "set (quote_plus s) \<subseteq> set ALWAYS_SAFE \<union> {CHR ''+'', CHR ''%''}"
  using form_encode_byte_chars by (fastforce simp: quote_plus_bytewise)

lemma dark_cave_url:
  "get_scene_image ''a dark cave!'' =
     ''https://via.placeholder.com/1024x1024.png?text=a+dark+cave%21''"
  by (simp add: get_scene_image_def quote_plus_def quote_def quote_byte_def replace_char_def
      ALWAYS_SAFE_def hex_upper_def)

text \<open>
  The spaces of the prompt \<open>a dark cave!\<close> are not percent-encoded: the URL is not the
  one with \<open>%20\<close> for each space.
\<close>

theorem space_not_percent_encoded_counterexample:
  "get_scene_image ''a dark cave!'' \<noteq>
     ''https://via.placeholder.com/1024x1024.png?text=a%20dark%20cave%21''"
  by (simp add: dark_cave_url)

text \<open>
  C8 (amended): the image URL is a function of the prompt alone: the fixed prefix followed
  by the prompt with each space written as \<open>+\<close>, each letter, digit and \<open>_.-~\<close> kept
  and every other byte percent-encoded. So the query portion never contains a literal space
  or a literal \<open>!\<close>, and for the prompt \<open>a dark cave!\<close> it is \<open>text=a+dark+cave%21\<close>.
\<close>

theorem scene_image_url_encoding:
  "get_scene_image prompt =
     ''https://via.placeholder.com/1024x1024.png?text='' @ concat (map form_encode_byte prompt) \<and>
   CHR '' '' \<notin> set (''text='' @ concat (map form_encode_byte prompt)) \<and>
   CHR ''!'' \<notin> set (''text='' @ concat (map form_encode_byte prompt)) \<and>
   get_scene_image ''a dark cave!'' =
     ''https://via.placeholder.com/1024x1024.png?text=a+dark+cave%21''"
proof -
  have "CHR '' '' \<notin> set (quote_plus prompt)" "CHR ''!'' \<notin> set (quote_plus prompt)"
    using quote_plus_chars [of prompt] space_not_safe bang_not_safe by auto
  moreover have "get_scene_image prompt =
     ''https://via.placeholder.com/1024x1024.png?text='' @ concat (map form_encode_byte prompt)"
    by (simp add: get_scene_image_def quote_plus_bytewise)
  ultimately show ?thesis
    using dark_cave_url by (simp add: quote_plus_bytewise)
qed

subsection \<open>The menu of a response\<close>






























end
